theory Spec2Isabelle
  imports Main "HOL-Library.Sublist"
begin

section \<open>Go values used by prow/kube/client.go\<close>

text \<open>
  A Go \<open>string\<close> and a \<open>[]byte\<close> are both lists of bytes. A pair \<open>(T, error)\<close> returned by
  a Go function is a pair of options, \<open>None\<close> standing for \<open>nil\<close>; a call either returns
  or panics.
\<close>

type_synonym bytes = string

text \<open>
  An \<open>error\<close> is an interface value: a dynamic type together with its data. The
  constructors are the dynamic types that occur: \<open>ErrorString\<close> is what
  \<open>fmt.Errorf\<close> builds, \<open>SyntaxError\<close> is the one of encoding/json, and
  \<open>Foreign t m\<close> is an error made outside the package (transport, file system,
  encoder) with the name of its type and its message.
\<close>

datatype go_error = ErrorString string | SyntaxError string | Foreign string string

type_synonym 'a ret = "'a option \<times> go_error option"

datatype 'a exec = Returns 'a | Panics

definition err_of :: "'a ret exec \<Rightarrow> go_error option" where
  "err_of x = (case x of Returns (v, e) \<Rightarrow> e | Panics \<Rightarrow> None)"

definition dquote :: string where
  "dquote = [CHR 0x22]"

definition fmt_Errorf :: "string \<Rightarrow> go_error" where
  "fmt_Errorf s = ErrorString s"

fun strings_Join :: "string list \<Rightarrow> string \<Rightarrow> string" where
  "strings_Join [] sep = []"
| "strings_Join [x] sep = x"
| "strings_Join (x # y # ys) sep = x @ sep @ strings_Join (y # ys) sep"

section \<open>Constants and types of the package\<close>

definition inClusterBaseURL :: string where
  "inClusterBaseURL = ''https://kubernetes''"

definition maxRetries :: nat where
  "maxRetries = 8"

text \<open>
  A \<open>time.Duration\<close> is a signed 64-bit count of nanoseconds. The loop doubles the
  delay at most \<open>maxRetries\<close> times, which stays far below \<open>2 ^ 63\<close>
  (lemma \<open>backoff_in_int64\<close>), so durations are integers.
\<close>

definition time_Second :: int where
  "time_Second = 1000000000"

definition retryDelay :: int where
  "retryDelay = 2 * time_Second"

definition MethodGet :: string where "MethodGet = ''GET''"
definition MethodPost :: string where "MethodPost = ''POST''"
definition MethodPut :: string where "MethodPut = ''PUT''"
definition MethodPatch :: string where "MethodPatch = ''PATCH''"
definition MethodDelete :: string where "MethodDelete = ''DELETE''"

definition VersionTLS12 :: nat where
  "VersionTLS12 = 0x0303"

text \<open>
  A value passed as \<open>interface{}\<close>: the argument of a log call or the body of a request.
  \<open>Pod\<close>, \<open>Job\<close> and \<open>Secret\<close> are declared in another file of the package; they
  are the type parameters \<open>'p\<close>, \<open>'j\<close> and \<open>'s\<close>. A label map is given as the list of
  its pairs in the order a \<open>range\<close> statement yields them.
\<close>

datatype ('p, 'j, 's) iface =
  VString string
| VLabels "(string \<times> string) list"
| VPod 'p
| VJob 'j
| VSecret 's

record tls_Config =
  MinVersion :: nat
  RootCAs :: "bytes list"

record http_Client =
  TLSClientConfig :: tls_Config

record Client =
  Logger :: "nat option"
  baseURL :: string
  client :: "http_Client option"
  token :: string
  namespace :: string
  fake :: bool

text \<open>The request descriptor; its field \<open>method\<close> is \<open>httpMethod\<close> here.\<close>

record ('p, 'j, 's) request =
  httpMethod :: string
  path :: string
  query :: "(string \<times> string) list"
  requestBody :: "('p, 'j, 's) iface option"

text \<open>
  The request handed to the transport, and the response it gives back. \<open>Body\<close> is what
  \<open>ioutil.ReadAll\<close> obtains from the body reader: the bytes read and the read error.
\<close>

record http_Request =
  req_Method :: string
  req_URL :: string
  req_Body :: "bytes option"
  req_Header :: "(string \<times> string) list"
  req_RawQuery :: string

record http_Response =
  StatusCode :: int
  Status :: string
  Body :: "bytes \<times> go_error option"

section \<open>Effects\<close>

text \<open>
  The effects of a call are appended to a trace. \<open>EvAttempt\<close> marks one call of
  \<open>doRequest\<close>, \<open>EvDo\<close> a round trip of the HTTP client, \<open>EvSleep\<close> a call of
  \<open>time.Sleep\<close>, \<open>EvClose\<close> the release of a response body and \<open>EvPrintf\<close> a call
  of the logger's \<open>Printf\<close> with its format and arguments.
\<close>

datatype event =
  EvAttempt
| EvDo http_Request
| EvSleep int
| EvClose
| EvPrintf nat string "string list"

type_synonym world = "event list"

fun is_Do :: "event \<Rightarrow> bool" where
  "is_Do (EvDo q) = True"
| "is_Do e = False"

fun is_Sleep :: "event \<Rightarrow> bool" where
  "is_Sleep (EvSleep d) = True"
| "is_Sleep e = False"

fun is_Printf :: "event \<Rightarrow> bool" where
  "is_Printf (EvPrintf l f as) = True"
| "is_Printf e = False"

definition round_trips :: "world \<Rightarrow> nat" where
  "round_trips w = length (filter is_Do w)"

definition attempts :: "world \<Rightarrow> nat" where
  "attempts w = length (filter (\<lambda>e. e = EvAttempt) w)"

definition sleeps :: "world \<Rightarrow> event list" where
  "sleeps w = filter is_Sleep w"

definition printfs :: "world \<Rightarrow> event list" where
  "printfs w = filter is_Printf w"

definition time_Sleep :: "int \<Rightarrow> world \<Rightarrow> world" where
  "time_Sleep d w = w @ [EvSleep d]"

text \<open>
  What the code calls outside the package. \<open>json_Marshal\<close>, \<open>Sprintf_v\<close> and the
  decoders depend on the declarations of \<open>Pod\<close>, \<open>Job\<close> and \<open>Secret\<close>;
  \<open>http_NewRequest\<close> gives the error of \<open>http.NewRequest\<close> for a method and URL, if
  any; \<open>Values_Encode\<close> is \<open>url.Values.Encode\<close>; \<open>client_Do n\<close> is the outcome of the
  round trip made after \<open>n\<close> earlier ones.
\<close>

record ('p, 'j, 's) env =
  json_Marshal :: "('p, 'j, 's) iface \<Rightarrow> go_error + bytes"
  Sprintf_v :: "('p, 'j, 's) iface \<Rightarrow> string"
  http_NewRequest :: "string \<Rightarrow> string \<Rightarrow> go_error option"
  Values_Encode :: "(string \<times> string) list \<Rightarrow> string"
  client_Do :: "nat \<Rightarrow> http_Request \<Rightarrow> go_error + http_Response"
  zero_Pod :: 'p
  zero_Job :: 'j
  decode_Pod :: "bytes \<Rightarrow> 'p \<Rightarrow> 'p \<times> go_error option"
  decode_Job :: "bytes \<Rightarrow> 'j \<Rightarrow> 'j \<times> go_error option"
  decode_PodList :: "bytes \<Rightarrow> 'p list \<Rightarrow> 'p list \<times> go_error option"
  decode_JobList :: "bytes \<Rightarrow> 'j list \<Rightarrow> 'j list \<times> go_error option"

section \<open>Logging\<close>

text \<open>\<open>fmt.Sprintf("%v", arg)\<close>: a string is printed as it is.\<close>

definition fmt_v :: "('p, 'j, 's) env \<Rightarrow> ('p, 'j, 's) iface \<Rightarrow> string" where
  "fmt_v env arg = (case arg of VString s \<Rightarrow> s | _ \<Rightarrow> Sprintf_v env arg)"

definition log :: "('p, 'j, 's) env \<Rightarrow> Client \<Rightarrow> string \<Rightarrow> ('p, 'j, 's) iface list \<Rightarrow> world \<Rightarrow> world" where
  "log env c methodName args w =
     (case Logger c of
        None \<Rightarrow> w
      | Some l \<Rightarrow> w @ [EvPrintf l ''%s(%s)'' [methodName, strings_Join (map (fmt_v env) args) '', '']])"

section \<open>The conflict error\<close>

text \<open>
  \<open>type ConflictError error\<close> declares an interface type with the method set of
  \<open>error\<close>. Converting an error to it keeps the dynamic type and the data of the
  value, and the type assertion \<open>err.(ConflictError)\<close> holds of every non-nil error,
  since every error has the method \<open>Error() string\<close>.
\<close>

definition ConflictError :: "go_error \<Rightarrow> go_error" where
  "ConflictError e = e"

definition is_ConflictError :: "go_error option \<Rightarrow> bool" where
  "is_ConflictError err = (case err of None \<Rightarrow> False | Some e \<Rightarrow> True)"

fun dynamic_type :: "go_error \<Rightarrow> string" where
  "dynamic_type (ErrorString m) = ''*errors.errorString''"
| "dynamic_type (SyntaxError m) = ''*json.SyntaxError''"
| "dynamic_type (Foreign t m) = t"

section \<open>The transport invoker\<close>

text \<open>
  \<open>doRequest\<close> up to the call of the HTTP client: the body is serialised when it is
  not nil, the request is made, and the headers and the query are set.
\<close>

definition doRequest_build ::
  "('p, 'j, 's) env \<Rightarrow> Client \<Rightarrow> string \<Rightarrow> string \<Rightarrow> (string \<times> string) list \<Rightarrow>
   ('p, 'j, 's) iface option \<Rightarrow> go_error + http_Request" where
  "doRequest_build env c meth urlPath qry body =
     (let url = baseURL c @ urlPath;
          marshalled = (case body of
                          None \<Rightarrow> Inr None
                        | Some v \<Rightarrow> (case json_Marshal env v of
                                       Inl err \<Rightarrow> Inl err
                                     | Inr b \<Rightarrow> Inr (Some b)))
      in case marshalled of
           Inl err \<Rightarrow> Inl err
         | Inr buf \<Rightarrow>
             (case http_NewRequest env meth url of
                Some err \<Rightarrow> Inl err
              | None \<Rightarrow>
                  Inr \<lparr> req_Method = meth, req_URL = url, req_Body = buf,
                        req_Header =
                          [(''Authorization'', ''Bearer '' @ token c),
                           (''Content-Type'',
                            if meth = MethodPatch
                            then ''application/strategic-merge-patch+json''
                            else ''application/json'')],
                        req_RawQuery = Values_Encode env qry \<rparr>))"

text \<open>
  One attempt. Calling \<open>Do\<close> on the nil HTTP client of a client that was not built by
  \<open>NewClientInCluster\<close> panics.
\<close>

definition doRequest ::
  "('p, 'j, 's) env \<Rightarrow> Client \<Rightarrow> string \<Rightarrow> string \<Rightarrow> (string \<times> string) list \<Rightarrow>
   ('p, 'j, 's) iface option \<Rightarrow> world \<Rightarrow> http_Response ret exec \<times> world" where
  "doRequest env c meth urlPath qry body w0 =
     (let w = w0 @ [EvAttempt]
      in case doRequest_build env c meth urlPath qry body of
           Inl err \<Rightarrow> (Returns (None, Some err), w)
         | Inr req \<Rightarrow>
             (case client c of
                None \<Rightarrow> (Panics, w)
              | Some hc \<Rightarrow>
                  (case client_Do env (round_trips w) req of
                     Inl err \<Rightarrow> (Returns (None, Some err), w @ [EvDo req])
                   | Inr resp \<Rightarrow> (Returns (Some resp, None), w @ [EvDo req]))))"

section \<open>The retry executor and the response interpreter\<close>

text \<open>
  The \<open>for\<close> loop of \<open>requestRetry\<close>, with its variables \<open>retries\<close>, \<open>backoff\<close> and
  the pair \<open>(resp, err)\<close> as arguments.
\<close>

function requestRetry_loop ::
  "('p, 'j, 's) env \<Rightarrow> Client \<Rightarrow> ('p, 'j, 's) request \<Rightarrow> nat \<Rightarrow> int \<Rightarrow>
   http_Response ret \<Rightarrow> world \<Rightarrow> http_Response ret exec \<times> world" where
  "requestRetry_loop env c r retries backoff cur w =
     (if retries < maxRetries then
        (case doRequest env c (httpMethod r) (path r) (query r) (requestBody r) w of
           (Panics, w') \<Rightarrow> (Panics, w')
         | (Returns (resp, None), w') \<Rightarrow> (Returns (resp, None), w')
         | (Returns (resp, Some err), w') \<Rightarrow>
             requestRetry_loop env c r (retries + 1) (backoff * 2) (resp, Some err)
               (time_Sleep backoff w'))
      else (Returns cur, w))"
  by pat_completeness auto
termination
  by (relation "measure (\<lambda>(env, c, r, retries, backoff, cur, w). maxRetries - retries)") auto

text \<open>
  The classification made by \<open>requestRetry\<close> once the loop has left a response: the
  body is read and the status code decides what is returned.
\<close>

definition requestRetry_interpret :: "http_Response \<Rightarrow> bytes ret" where
  "requestRetry_interpret resp =
     (case Body resp of
        (rb, Some err) \<Rightarrow> (None, Some err)
      | (rb, None) \<Rightarrow>
          (if StatusCode resp = 409 then
             (None, Some (ConflictError (fmt_Errorf (''body: '' @ rb))))
           else if StatusCode resp < 200 \<or> StatusCode resp > 299 then
             (None, Some (fmt_Errorf
                (''response has status '' @ dquote @ Status resp @ dquote @
                 '' and body '' @ dquote @ rb @ dquote)))
           else (Some rb, None)))"

text \<open>
  In fake mode nothing is attempted. Otherwise the loop runs; an error left by it is
  returned, and a response is read, classified, and its body closed by the deferred call
  on return. A nil response with a nil error would be dereferenced.
\<close>

definition requestRetry ::
  "('p, 'j, 's) env \<Rightarrow> Client \<Rightarrow> ('p, 'j, 's) request \<Rightarrow> world \<Rightarrow> bytes ret exec \<times> world" where
  "requestRetry env c r w =
     (if fake c then (Returns (Some ''{}'', None), w)
      else
        (case requestRetry_loop env c r 0 retryDelay (None, None) w of
           (Panics, w') \<Rightarrow> (Panics, w')
         | (Returns (resp, Some err), w') \<Rightarrow> (Returns (None, Some err), w')
         | (Returns (None, None), w') \<Rightarrow> (Panics, w')
         | (Returns (Some resp, None), w') \<Rightarrow>
             (Returns (requestRetry_interpret resp), w' @ [EvClose])))"

section \<open>The typed request facade\<close>

text \<open>
  \<open>json.Unmarshal\<close> checks that its input holds a JSON value before it looks at the
  target: input that is empty or only white space is rejected with a syntax error and
  the target is left as it was. The decoding of a value into a target of a given type is
  the argument \<open>dec\<close>.
\<close>

definition isSpace :: "char \<Rightarrow> bool" where
  "isSpace ch = (ch = CHR '' '' \<or> ch = CHR 0x09 \<or> ch = CHR 0x0D \<or> ch = CHR 0x0A)"

definition json_Unmarshal ::
  "(bytes \<Rightarrow> 'r \<Rightarrow> 'r \<times> go_error option) \<Rightarrow> bytes \<Rightarrow> 'r \<Rightarrow> 'r \<times> go_error option" where
  "json_Unmarshal dec data target =
     (if list_all isSpace data
      then (target, Some (SyntaxError ''unexpected end of JSON input''))
      else dec data target)"

text \<open>
  \<open>request\<close> writes through the pointer \<open>ret\<close>; the model returns the content of the
  result slot after the call beside the error.
\<close>

definition request ::
  "('p, 'j, 's) env \<Rightarrow> Client \<Rightarrow> ('p, 'j, 's) request \<Rightarrow>
   (bytes \<Rightarrow> 'r \<Rightarrow> 'r \<times> go_error option) \<Rightarrow> 'r option \<Rightarrow> world \<Rightarrow>
   ('r option \<times> go_error option) exec \<times> world" where
  "request env c r dec ret w =
     (case requestRetry env c r w of
        (Panics, w') \<Rightarrow> (Panics, w')
      | (Returns (out, Some err), w') \<Rightarrow> (Returns (ret, Some err), w')
      | (Returns (out, None), w') \<Rightarrow>
          (case ret of
             None \<Rightarrow> (Returns (None, None), w')
           | Some target \<Rightarrow>
               (case json_Unmarshal dec (case out of None \<Rightarrow> [] | Some b \<Rightarrow> b) target of
                  (t, Some err) \<Rightarrow> (Returns (Some t, Some err), w')
                | (t, None) \<Rightarrow> (Returns (Some t, None), w'))))"

text \<open>A call with a nil result slot; the decoder is never used.\<close>

definition no_decoder :: "bytes \<Rightarrow> unit \<Rightarrow> unit \<times> go_error option" where
  "no_decoder data u = (u, None)"

definition request_nil ::
  "('p, 'j, 's) env \<Rightarrow> Client \<Rightarrow> ('p, 'j, 's) request \<Rightarrow> world \<Rightarrow> go_error option exec \<times> world" where
  "request_nil env c r w =
     (case request env c r no_decoder None w of
        (Panics, w') \<Rightarrow> (Panics, w')
      | (Returns (slot, err), w') \<Rightarrow> (Returns err, w'))"

text \<open>
  A call with the address of a local variable holding \<open>v\<close>: the variable's content
  after the call, and the error.
\<close>

definition request_into ::
  "('p, 'j, 's) env \<Rightarrow> Client \<Rightarrow> ('p, 'j, 's) request \<Rightarrow>
   (bytes \<Rightarrow> 'r \<Rightarrow> 'r \<times> go_error option) \<Rightarrow> 'r \<Rightarrow> world \<Rightarrow>
   ('r \<times> go_error option) exec \<times> world" where
  "request_into env c r dec v w =
     (case request env c r dec (Some v) w of
        (Panics, w') \<Rightarrow> (Panics, w')
      | (Returns (slot, err), w') \<Rightarrow>
          (Returns (case slot of None \<Rightarrow> v | Some v' \<Rightarrow> v', err), w'))"

section \<open>Construction\<close>

definition NewFakeClient :: Client where
  "NewFakeClient =
     \<lparr> Logger = None, baseURL = [], client = None, token = [],
       namespace = ''default'', fake = True \<rparr>"

definition tokenFile :: string where
  "tokenFile = ''/var/run/secrets/kubernetes.io/serviceaccount/token''"

definition rootCAFile :: string where
  "rootCAFile = ''/var/run/secrets/kubernetes.io/serviceaccount/ca.crt''"

text \<open>
  \<open>x509.CertPool.AppendCertsFromPEM\<close> adds the certificates it can parse out of the
  data and reports whether it found any; \<open>parse\<close> gives the certificates found.
\<close>

definition AppendCertsFromPEM ::
  "(bytes \<Rightarrow> bytes list) \<Rightarrow> bytes list \<Rightarrow> bytes \<Rightarrow> bytes list \<times> bool" where
  "AppendCertsFromPEM parse pool pemCerts = (pool @ parse pemCerts, parse pemCerts \<noteq> [])"

text \<open>\<open>ReadFile\<close> is \<open>ioutil.ReadFile\<close> on the file system of the pod.\<close>

definition NewClientInCluster ::
  "(string \<Rightarrow> go_error + bytes) \<Rightarrow> (bytes \<Rightarrow> bytes list) \<Rightarrow> string \<Rightarrow> Client ret" where
  "NewClientInCluster ReadFile parse ns =
     (case ReadFile tokenFile of
        Inl err \<Rightarrow> (None, Some err)
      | Inr tok \<Rightarrow>
          (case ReadFile rootCAFile of
             Inl err \<Rightarrow> (None, Some err)
           | Inr certData \<Rightarrow>
               (let cp = fst (AppendCertsFromPEM parse [] certData);
                    tr = \<lparr> MinVersion = VersionTLS12, RootCAs = cp \<rparr>;
                    hc = \<lparr> TLSClientConfig = tr \<rparr>
                in (Some \<lparr> Logger = None, baseURL = inClusterBaseURL, client = Some hc,
                           token = tok, namespace = ns, fake = False \<rparr>, None))))"

section \<open>Resource methods\<close>

definition labelsToSelector :: "(string \<times> string) list \<Rightarrow> string" where
  "labelsToSelector labels = strings_Join (map (\<lambda>(k, v). k @ '' = '' @ v) labels) '',''"

definition GetPod ::
  "('p, 'j, 's) env \<Rightarrow> Client \<Rightarrow> string \<Rightarrow> world \<Rightarrow> ('p \<times> go_error option) exec \<times> world" where
  "GetPod env c name w =
     request_into env c
       \<lparr> httpMethod = MethodGet,
         path = ''/api/v1/namespaces/'' @ namespace c @ ''/pods/'' @ name,
         query = [], requestBody = None \<rparr>
       (decode_Pod env) (zero_Pod env) (log env c ''GetPod'' [VString name] w)"

definition ListPods ::
  "('p, 'j, 's) env \<Rightarrow> Client \<Rightarrow> (string \<times> string) list \<Rightarrow> world \<Rightarrow>
   ('p list \<times> go_error option) exec \<times> world" where
  "ListPods env c labels w =
     request_into env c
       \<lparr> httpMethod = MethodGet,
         path = ''/api/v1/namespaces/'' @ namespace c @ ''/pods'',
         query = [(''labelSelector'', labelsToSelector labels)], requestBody = None \<rparr>
       (decode_PodList env) [] (log env c ''ListPods'' [VLabels labels] w)"

definition DeletePod ::
  "('p, 'j, 's) env \<Rightarrow> Client \<Rightarrow> string \<Rightarrow> world \<Rightarrow> go_error option exec \<times> world" where
  "DeletePod env c name w =
     request_nil env c
       \<lparr> httpMethod = MethodDelete,
         path = ''/api/v1/namespaces/'' @ namespace c @ ''/pods/'' @ name,
         query = [], requestBody = None \<rparr>
       (log env c ''DeletePod'' [VString name] w)"

definition GetJob ::
  "('p, 'j, 's) env \<Rightarrow> Client \<Rightarrow> string \<Rightarrow> world \<Rightarrow> ('j \<times> go_error option) exec \<times> world" where
  "GetJob env c name w =
     request_into env c
       \<lparr> httpMethod = MethodGet,
         path = ''/apis/batch/v1/namespaces/'' @ namespace c @ ''/jobs/'' @ name,
         query = [], requestBody = None \<rparr>
       (decode_Job env) (zero_Job env) (log env c ''GetJob'' [VString name] w)"

definition ListJobs ::
  "('p, 'j, 's) env \<Rightarrow> Client \<Rightarrow> (string \<times> string) list \<Rightarrow> world \<Rightarrow>
   ('j list \<times> go_error option) exec \<times> world" where
  "ListJobs env c labels w =
     request_into env c
       \<lparr> httpMethod = MethodGet,
         path = ''/apis/batch/v1/namespaces/'' @ namespace c @ ''/jobs'',
         query = [(''labelSelector'', labelsToSelector labels)], requestBody = None \<rparr>
       (decode_JobList env) [] (log env c ''ListJobs'' [VLabels labels] w)"

definition CreatePod ::
  "('p, 'j, 's) env \<Rightarrow> Client \<Rightarrow> 'p \<Rightarrow> world \<Rightarrow> ('p \<times> go_error option) exec \<times> world" where
  "CreatePod env c p w =
     request_into env c
       \<lparr> httpMethod = MethodPost,
         path = ''/api/v1/namespaces/'' @ namespace c @ ''/pods'',
         query = [], requestBody = Some (VPod p) \<rparr>
       (decode_Pod env) (zero_Pod env) (log env c ''CreatePod'' [VPod p] w)"

definition CreateJob ::
  "('p, 'j, 's) env \<Rightarrow> Client \<Rightarrow> 'j \<Rightarrow> world \<Rightarrow> ('j \<times> go_error option) exec \<times> world" where
  "CreateJob env c j w =
     request_into env c
       \<lparr> httpMethod = MethodPost,
         path = ''/apis/batch/v1/namespaces/'' @ namespace c @ ''/jobs'',
         query = [], requestBody = Some (VJob j) \<rparr>
       (decode_Job env) (zero_Job env) (log env c ''CreateJob'' [VJob j] w)"

definition DeleteJob ::
  "('p, 'j, 's) env \<Rightarrow> Client \<Rightarrow> string \<Rightarrow> world \<Rightarrow> go_error option exec \<times> world" where
  "DeleteJob env c name w =
     request_nil env c
       \<lparr> httpMethod = MethodDelete,
         path = ''/apis/batch/v1/namespaces/'' @ namespace c @ ''/jobs/'' @ name,
         query = [], requestBody = None \<rparr>
       (log env c ''DeleteJob'' [VString name] w)"

definition PatchJob ::
  "('p, 'j, 's) env \<Rightarrow> Client \<Rightarrow> string \<Rightarrow> 'j \<Rightarrow> world \<Rightarrow> ('j \<times> go_error option) exec \<times> world" where
  "PatchJob env c name job w =
     request_into env c
       \<lparr> httpMethod = MethodPatch,
         path = ''/apis/batch/v1/namespaces/'' @ namespace c @ ''/jobs/'' @ name,
         query = [], requestBody = Some (VJob job) \<rparr>
       (decode_Job env) (zero_Job env) (log env c ''PatchJob'' [VString name, VJob job] w)"

definition PatchJobStatus ::
  "('p, 'j, 's) env \<Rightarrow> Client \<Rightarrow> string \<Rightarrow> 'j \<Rightarrow> world \<Rightarrow> ('j \<times> go_error option) exec \<times> world" where
  "PatchJobStatus env c name job w =
     request_into env c
       \<lparr> httpMethod = MethodPatch,
         path = ''/apis/batch/v1/namespaces/'' @ namespace c @ ''/jobs/'' @ name @ ''/status'',
         query = [], requestBody = Some (VJob job) \<rparr>
       (decode_Job env) (zero_Job env)
       (log env c ''PatchJobStatus'' [VString name, VJob job] w)"

definition ReplaceSecret ::
  "('p, 'j, 's) env \<Rightarrow> Client \<Rightarrow> string \<Rightarrow> 's \<Rightarrow> world \<Rightarrow> go_error option exec \<times> world" where
  "ReplaceSecret env c name s w =
     request_nil env c
       \<lparr> httpMethod = MethodPut,
         path = ''/api/v1/namespaces/'' @ namespace c @ ''/secrets/'' @ name,
         query = [], requestBody = Some (VSecret s) \<rparr>
       (log env c ''ReplaceSecret'' [VString name] w)"

definition GetLog ::
  "('p, 'j, 's) env \<Rightarrow> Client \<Rightarrow> string \<Rightarrow> world \<Rightarrow> bytes ret exec \<times> world" where
  "GetLog env c pod w =
     requestRetry env c
       \<lparr> httpMethod = MethodGet,
         path = ''/api/v1/namespaces/'' @ namespace c @ ''/pods/'' @ pod @ ''/log'',
         query = [], requestBody = None \<rparr>
       (log env c ''GetLog'' [VString pod] w)"

section \<open>Traces of the retry loop\<close>

text \<open>
  The request that \<open>doRequest\<close> builds for a request descriptor, or the error that
  stops it before any round trip.
\<close>

abbreviation built_request ::
  "('p, 'j, 's) env \<Rightarrow> Client \<Rightarrow> ('p, 'j, 's) request \<Rightarrow> go_error + http_Request" where
  "built_request env c r \<equiv> doRequest_build env c (httpMethod r) (path r) (query r) (requestBody r)"

text \<open>
  The events of \<open>k\<close> attempts in a row that fail in the round trip, and of \<open>k\<close>
  attempts that fail before it, with the first delay \<open>b\<close>.
\<close>

definition failed_rounds :: "http_Request \<Rightarrow> int \<Rightarrow> nat \<Rightarrow> event list" where
  "failed_rounds req b k =
     concat (map (\<lambda>i. [EvAttempt, EvDo req, EvSleep (b * 2 ^ i)]) [0..<k])"

definition unsent_rounds :: "int \<Rightarrow> nat \<Rightarrow> event list" where
  "unsent_rounds b k = concat (map (\<lambda>i. [EvAttempt, EvSleep (b * 2 ^ i)]) [0..<k])"

section \<open>Example environments\<close>

definition refused :: go_error where
  "refused = Foreign ''*net.OpError'' ''dial tcp: connection refused''"

definition env0 :: "(string, string, string) env" where
  "env0 =
     \<lparr> json_Marshal = (\<lambda>v. Inr ''{}''),
       Sprintf_v = (\<lambda>v. case v of VString x \<Rightarrow> x | VLabels l \<Rightarrow> ''map[]''
                          | VPod x \<Rightarrow> x | VJob x \<Rightarrow> x | VSecret x \<Rightarrow> x),
       http_NewRequest = (\<lambda>m u. None),
       Values_Encode = (\<lambda>q. []),
       client_Do = (\<lambda>n q. Inl refused),
       zero_Pod = [],
       zero_Job = [],
       decode_Pod = (\<lambda>data t. (if data = ''{}'' then t else data, None)),
       decode_Job = (\<lambda>data t. (if data = ''{}'' then t else data, None)),
       decode_PodList = (\<lambda>data t. (if data = ''{}'' then t else [data], None)),
       decode_JobList = (\<lambda>data t. (if data = ''{}'' then t else [data], None)) \<rparr>"

definition client0 :: Client where
  "client0 =
     \<lparr> Logger = Some 0, baseURL = inClusterBaseURL,
       client = Some \<lparr> TLSClientConfig = \<lparr> MinVersion = VersionTLS12, RootCAs = [] \<rparr> \<rparr>,
       token = ''t0k3n'', namespace = ''default'', fake = False \<rparr>"

definition req0 :: "(string, string, string) request" where
  "req0 = \<lparr> httpMethod = MethodPut, path = ''/api/v1/namespaces/default/secrets/s'',
            query = [], requestBody = Some (VSecret ''hunter2'') \<rparr>"

definition sent0 :: http_Request where
  "sent0 =
     \<lparr> req_Method = ''PUT'',
       req_URL = ''https://kubernetes/api/v1/namespaces/default/secrets/s'',
       req_Body = Some ''{}'',
       req_Header = [(''Authorization'', ''Bearer t0k3n''),
                     (''Content-Type'', ''application/json'')],
       req_RawQuery = [] \<rparr>"

definition resp500 :: http_Response where
  "resp500 = \<lparr> StatusCode = 500, Status = ''500 Internal Server Error'',
               Body = (''boom'', None) \<rparr>"

definition resp409 :: http_Response where
  "resp409 = \<lparr> StatusCode = 409, Status = ''409 Conflict'', Body = (''stale'', None) \<rparr>"

definition resp200_empty :: http_Response where
  "resp200_empty = \<lparr> StatusCode = 200, Status = ''200 OK'', Body = ([], None) \<rparr>"

text \<open>A transport that fails twice and then answers with \<open>resp\<close>.\<close>

definition env_flaky :: "http_Response \<Rightarrow> (string, string, string) env" where
  "env_flaky resp = env0 \<lparr> client_Do := (\<lambda>n q. if n < 2 then Inl refused else Inr resp) \<rparr>"

definition env_unmarshallable :: "(string, string, string) env" where
  "env_unmarshallable =
     env0 \<lparr> json_Marshal := (\<lambda>v. Inl (Foreign ''*json.UnsupportedTypeError'' ''unsupported type'')) \<rparr>"

text \<open>A pod file system with both files in place, and a bundle that holds no certificate.\<close>

definition fs_ok :: "string \<Rightarrow> go_error + bytes" where
  "fs_ok name =
     (if name = tokenFile then Inr ''t0k3n''
      else if name = rootCAFile then Inr ''not a certificate''
      else Inl (Foreign ''*os.PathError'' ''no such file or directory''))"

definition parse_nothing :: "bytes \<Rightarrow> bytes list" where
  "parse_nothing data = []"

declare requestRetry_loop.simps [simp del]

section \<open>Lemmas about the retry loop\<close>

subsection \<open>Counting events\<close>

lemma round_trips_append: "round_trips (w @ v) = round_trips w + round_trips v"
  by (simp add: round_trips_def)

lemma attempts_append: "attempts (w @ v) = attempts w + attempts v"
  by (simp add: attempts_def)

lemma sleeps_append: "sleeps (w @ v) = sleeps w @ sleeps v"
  by (simp add: sleeps_def)

lemma failed_rounds_Suc:
  "failed_rounds req b (Suc k) = failed_rounds req b k @ [EvAttempt, EvDo req, EvSleep (b * 2 ^ k)]"
  by (simp add: failed_rounds_def)

lemma unsent_rounds_Suc:
  "unsent_rounds b (Suc k) = unsent_rounds b k @ [EvAttempt, EvSleep (b * 2 ^ k)]"
  by (simp add: unsent_rounds_def)

lemma round_trips_failed_rounds: "round_trips (failed_rounds req b k) = k"
proof (induction k)
  case 0
  show ?case by (simp add: failed_rounds_def round_trips_def)
next
  case (Suc k)
  have "round_trips [EvAttempt, EvDo req, EvSleep (b * 2 ^ k)] = 1"
    by (simp add: round_trips_def)
  with Suc show ?case by (simp add: failed_rounds_Suc round_trips_append)
qed

lemma attempts_failed_rounds: "attempts (failed_rounds req b k) = k"
proof (induction k)
  case 0
  show ?case by (simp add: failed_rounds_def attempts_def)
next
  case (Suc k)
  have "attempts [EvAttempt, EvDo req, EvSleep (b * 2 ^ k)] = 1"
    by (simp add: attempts_def)
  with Suc show ?case by (simp add: failed_rounds_Suc attempts_append)
qed

lemma sleeps_failed_rounds:
  "sleeps (failed_rounds req b k) = map (\<lambda>i. EvSleep (b * 2 ^ i)) [0..<k]"
proof (induction k)
  case 0
  show ?case by (simp add: failed_rounds_def sleeps_def)
next
  case (Suc k)
  have "sleeps [EvAttempt, EvDo req, EvSleep (b * 2 ^ k)] = [EvSleep (b * 2 ^ k)]"
    by (simp add: sleeps_def)
  with Suc show ?case by (simp add: failed_rounds_Suc sleeps_append)
qed

lemma round_trips_unsent_rounds: "round_trips (unsent_rounds b k) = 0"
  by (induction k) (simp_all add: unsent_rounds_Suc round_trips_append, simp_all add: round_trips_def unsent_rounds_def)

lemma attempts_unsent_rounds: "attempts (unsent_rounds b k) = k"
proof (induction k)
  case 0
  show ?case by (simp add: unsent_rounds_def attempts_def)
next
  case (Suc k)
  have "attempts [EvAttempt, EvSleep (b * 2 ^ k)] = 1"
    by (simp add: attempts_def)
  with Suc show ?case by (simp add: unsent_rounds_Suc attempts_append)
qed

lemma sleeps_unsent_rounds:
  "sleeps (unsent_rounds b k) = map (\<lambda>i. EvSleep (b * 2 ^ i)) [0..<k]"
proof (induction k)
  case 0
  show ?case by (simp add: unsent_rounds_def sleeps_def)
next
  case (Suc k)
  have "sleeps [EvAttempt, EvSleep (b * 2 ^ k)] = [EvSleep (b * 2 ^ k)]"
    by (simp add: sleeps_def)
  with Suc show ?case by (simp add: unsent_rounds_Suc sleeps_append)
qed

lemma backoff_in_int64: "i \<le> maxRetries \<Longrightarrow> retryDelay * 2 ^ i < 2 ^ 63"
proof -
  assume "i \<le> maxRetries"
  then have "(2::int) ^ i \<le> 2 ^ 8"
    by (intro power_increasing) (simp_all add: maxRetries_def)
  then have "retryDelay * 2 ^ i \<le> 2000000000 * 2 ^ 8"
    by (simp add: retryDelay_def time_Second_def)
  then show ?thesis by simp
qed

subsection \<open>One attempt\<close>

lemma doRequest_transport_error:
  assumes "client c = Some hc"
    and "doRequest_build env c m p q b = Inr req"
    and "client_Do env (round_trips w) req = Inl e"
  shows "doRequest env c m p q b w = (Returns (None, Some e), w @ [EvAttempt, EvDo req])"
  using assms by (simp add: doRequest_def Let_def round_trips_append) (simp add: round_trips_def)

lemma doRequest_round_trip:
  assumes "client c = Some hc"
    and "doRequest_build env c m p q b = Inr req"
    and "client_Do env (round_trips w) req = Inr resp"
  shows "doRequest env c m p q b w = (Returns (Some resp, None), w @ [EvAttempt, EvDo req])"
  using assms by (simp add: doRequest_def Let_def round_trips_append) (simp add: round_trips_def)

lemma doRequest_build_error:
  assumes "doRequest_build env c m p q b = Inl e"
  shows "doRequest env c m p q b w = (Returns (None, Some e), w @ [EvAttempt])"
  using assms by (simp add: doRequest_def Let_def)

subsection \<open>The loop\<close>

lemma loop_transport_errors:
  assumes hc: "client c = Some hc"
    and req: "built_request env c r = Inr req"
    and fails: "\<forall>i<k. client_Do env (round_trips w + i) req = Inl (err i)"
    and bound: "j + k \<le> maxRetries"
  shows "requestRetry_loop env c r j b cur w =
         requestRetry_loop env c r (j + k) (b * 2 ^ k)
           (if k = 0 then cur else (None, Some (err (k - 1))))
           (w @ failed_rounds req b k)"
  using fails bound
proof (induction k)
  case 0
  then show ?case by (simp add: failed_rounds_def)
next
  case (Suc k)
  let ?w = "w @ failed_rounds req b k"
  have ih: "requestRetry_loop env c r j b cur w =
         requestRetry_loop env c r (j + k) (b * 2 ^ k)
           (if k = 0 then cur else (None, Some (err (k - 1)))) ?w"
    using Suc by simp
  have rt: "round_trips ?w = round_trips w + k"
    by (simp add: round_trips_append round_trips_failed_rounds)
  have "client_Do env (round_trips ?w) req = Inl (err k)"
    using Suc.prems(1) rt by simp
  then have d: "doRequest env c (httpMethod r) (path r) (query r) (requestBody r) ?w =
      (Returns (None, Some (err k)), ?w @ [EvAttempt, EvDo req])"
    by (rule doRequest_transport_error [OF hc req])
  have lt: "j + k < maxRetries" using Suc.prems(2) by simp
  have "requestRetry_loop env c r (j + k) (b * 2 ^ k)
           (if k = 0 then cur else (None, Some (err (k - 1)))) ?w =
        requestRetry_loop env c r (j + Suc k) (b * 2 ^ Suc k) (None, Some (err k))
           (w @ failed_rounds req b (Suc k))"
    by (subst requestRetry_loop.simps) (simp add: lt d time_Sleep_def failed_rounds_Suc mult_ac)
  with ih show ?case by simp
qed

lemma loop_build_errors:
  assumes bad: "built_request env c r = Inl e"
    and bound: "j + k \<le> maxRetries"
  shows "requestRetry_loop env c r j b cur w =
         requestRetry_loop env c r (j + k) (b * 2 ^ k)
           (if k = 0 then cur else (None, Some e))
           (w @ unsent_rounds b k)"
  using bound
proof (induction k)
  case 0
  then show ?case by (simp add: unsent_rounds_def)
next
  case (Suc k)
  let ?w = "w @ unsent_rounds b k"
  have ih: "requestRetry_loop env c r j b cur w =
         requestRetry_loop env c r (j + k) (b * 2 ^ k)
           (if k = 0 then cur else (None, Some e)) ?w"
    using Suc by simp
  have d: "doRequest env c (httpMethod r) (path r) (query r) (requestBody r) ?w =
      (Returns (None, Some e), ?w @ [EvAttempt])"
    by (rule doRequest_build_error [OF bad])
  have lt: "j + k < maxRetries" using Suc.prems by simp
  have "requestRetry_loop env c r (j + k) (b * 2 ^ k)
           (if k = 0 then cur else (None, Some e)) ?w =
        requestRetry_loop env c r (j + Suc k) (b * 2 ^ Suc k) (None, Some e)
           (w @ unsent_rounds b (Suc k))"
    by (subst requestRetry_loop.simps) (simp add: lt d time_Sleep_def unsent_rounds_Suc mult_ac)
  with ih show ?case by simp
qed

lemma loop_exhausted: "requestRetry_loop env c r maxRetries b cur w = (Returns cur, w)"
  by (subst requestRetry_loop.simps) simp

lemma requestRetry_all_transport_errors:
  assumes nf: "\<not> fake c"
    and hc: "client c = Some hc"
    and req: "built_request env c r = Inr req"
    and fails: "\<forall>i<maxRetries. client_Do env (round_trips w + i) req = Inl (err i)"
  shows "requestRetry env c r w =
         (Returns (None, Some (err (maxRetries - 1))), w @ failed_rounds req retryDelay maxRetries)"
proof -
  have "requestRetry_loop env c r 0 retryDelay (None, None) w =
        requestRetry_loop env c r (0 + maxRetries) (retryDelay * 2 ^ maxRetries)
          (if maxRetries = 0 then (None, None) else (None, Some (err (maxRetries - 1))))
          (w @ failed_rounds req retryDelay maxRetries)"
    by (rule loop_transport_errors [OF hc req fails]) simp
  then have "requestRetry_loop env c r 0 retryDelay (None, None) w =
        (Returns (None, Some (err (maxRetries - 1))), w @ failed_rounds req retryDelay maxRetries)"
    by (simp add: loop_exhausted) (simp add: maxRetries_def)
  then show ?thesis using nf by (simp add: requestRetry_def)
qed

lemma requestRetry_round_trip:
  assumes nf: "\<not> fake c"
    and hc: "client c = Some hc"
    and req: "built_request env c r = Inr req"
    and k: "k < maxRetries"
    and fails: "\<forall>i<k. client_Do env (round_trips w + i) req = Inl (err i)"
    and ok: "client_Do env (round_trips w + k) req = Inr resp"
  shows "requestRetry env c r w =
         (Returns (requestRetry_interpret resp),
          w @ failed_rounds req retryDelay k @ [EvAttempt, EvDo req, EvClose])"
proof -
  let ?w = "w @ failed_rounds req retryDelay k"
  have l: "requestRetry_loop env c r 0 retryDelay (None, None) w =
        requestRetry_loop env c r (0 + k) (retryDelay * 2 ^ k)
          (if k = 0 then (None, None) else (None, Some (err (k - 1)))) ?w"
    by (rule loop_transport_errors [OF hc req fails]) (use k in simp)
  have rt: "round_trips ?w = round_trips w + k"
    by (simp add: round_trips_append round_trips_failed_rounds)
  have d: "doRequest env c (httpMethod r) (path r) (query r) (requestBody r) ?w =
      (Returns (Some resp, None), ?w @ [EvAttempt, EvDo req])"
    by (rule doRequest_round_trip [OF hc req]) (simp add: rt ok)
  have "requestRetry_loop env c r k (retryDelay * 2 ^ k)
          (if k = 0 then (None, None) else (None, Some (err (k - 1)))) ?w =
        (Returns (Some resp, None), ?w @ [EvAttempt, EvDo req])"
    by (subst requestRetry_loop.simps) (simp add: k d)
  with l have "requestRetry_loop env c r 0 retryDelay (None, None) w =
        (Returns (Some resp, None), ?w @ [EvAttempt, EvDo req])"
    by simp
  then show ?thesis using nf by (simp add: requestRetry_def)
qed

lemma requestRetry_build_error:
  assumes nf: "\<not> fake c"
    and bad: "built_request env c r = Inl e"
  shows "requestRetry env c r w =
         (Returns (None, Some e), w @ unsent_rounds retryDelay maxRetries)"
proof -
  have "requestRetry_loop env c r 0 retryDelay (None, None) w =
        requestRetry_loop env c r (0 + maxRetries) (retryDelay * 2 ^ maxRetries)
          (if maxRetries = 0 then (None, None) else (None, Some e))
          (w @ unsent_rounds retryDelay maxRetries)"
    by (rule loop_build_errors [OF bad]) simp
  then have "requestRetry_loop env c r 0 retryDelay (None, None) w =
        (Returns (None, Some e), w @ unsent_rounds retryDelay maxRetries)"
    by (simp add: loop_exhausted) (simp add: maxRetries_def)
  then show ?thesis using nf by (simp add: requestRetry_def)
qed

lemma doRequest_build_fails:
  assumes "(\<exists>v. requestBody r = Some v \<and> json_Marshal env v = Inl e)
         \<or> ((\<forall>v. requestBody r = Some v \<longrightarrow> \<not> isl (json_Marshal env v))
            \<and> http_NewRequest env (httpMethod r) (baseURL c @ path r) = Some e)"
  shows "built_request env c r = Inl e"
  using assms
  by (auto simp: doRequest_build_def Let_def split: option.splits sum.splits)

lemma sleeps_before_round_trip:
  assumes "\<not> fake c"
    and "client c = Some hc"
    and "built_request env c r = Inr req"
    and "k < maxRetries"
    and "\<forall>i<k. client_Do env (round_trips w + i) req = Inl (err i)"
    and "client_Do env (round_trips w + k) req = Inr resp"
  shows "sleeps (snd (requestRetry env c r w)) =
         sleeps w @ map (\<lambda>i. EvSleep (retryDelay * 2 ^ i)) [0..<k]"
proof -
  have "requestRetry env c r w =
           (Returns (requestRetry_interpret resp),
            w @ failed_rounds req retryDelay k @ [EvAttempt, EvDo req, EvClose])"
    using assms by (rule requestRetry_round_trip)
  moreover have "sleeps [EvAttempt, EvDo req, EvClose] = []"
    by (simp add: sleeps_def)
  ultimately show ?thesis
    by (simp add: sleeps_append sleeps_failed_rounds)
qed

subsection \<open>The facade\<close>

lemma json_Unmarshal_empty:
  "json_Unmarshal dec [] t = (t, Some (SyntaxError ''unexpected end of JSON input''))"
  by (simp add: json_Unmarshal_def)

subsection \<open>Fake mode\<close>

lemma requestRetry_fake: "fake c \<Longrightarrow> requestRetry env c r w = (Returns (Some ''{}'', None), w)"
  by (simp add: requestRetry_def)

lemma json_Unmarshal_object: "json_Unmarshal dec ''{}'' t = dec ''{}'' t"
  by (simp add: json_Unmarshal_def isSpace_def)

lemma request_into_fake:
  assumes "fake c" and "dec ''{}'' z = (z, None)"
  shows "request_into env c r dec z w = (Returns (z, None), w)"
  using assms by (simp add: request_into_def request_def requestRetry_fake json_Unmarshal_object)

lemma request_nil_fake:
  assumes "fake c"
  shows "request_nil env c r w = (Returns None, w)"
  using assms by (simp add: request_nil_def request_def requestRetry_fake)

lemma log_NewFakeClient: "log env NewFakeClient m args w = w"
  by (simp add: log_def NewFakeClient_def)

lemma fake_NewFakeClient: "fake NewFakeClient"
  by (simp add: NewFakeClient_def)

subsection \<open>Log events\<close>

lemma printfs_append: "printfs (w @ v) = printfs w @ printfs v"
  by (simp add: printfs_def)

lemma printfs_doRequest: "printfs (snd (doRequest env c m p q b w)) = printfs w"
  by (simp add: doRequest_def Let_def printfs_def split: sum.splits option.splits)

lemma printfs_loop: "printfs (snd (requestRetry_loop env c r n b cur w)) = printfs w"
proof (induction env c r n b cur w rule: requestRetry_loop.induct)
  case (1 env c r retries backoff cur w)
  show ?case
  proof (cases "retries < maxRetries")
    case False
    then show ?thesis by (subst requestRetry_loop.simps) simp
  next
    case True
    obtain res w' where d: "doRequest env c (httpMethod r) (path r) (query r) (requestBody r) w = (res, w')"
      by (cases "doRequest env c (httpMethod r) (path r) (query r) (requestBody r) w")
    have pw: "printfs w' = printfs w"
      using printfs_doRequest [of env c "httpMethod r" "path r" "query r" "requestBody r" w] d by simp
    show ?thesis
    proof (cases res)
      case Panics
      then show ?thesis using True d pw by (subst requestRetry_loop.simps) simp
    next
      case (Returns pr)
      obtain resp eo where pr: "pr = (resp, eo)" by (cases pr)
      show ?thesis
      proof (cases eo)
        case None
        then show ?thesis using True d pw Returns pr by (subst requestRetry_loop.simps) simp
      next
        case (Some err)
        have "printfs (snd (requestRetry_loop env c r (retries + 1) (backoff * 2) (resp, Some err)
                 (time_Sleep backoff w'))) = printfs (time_Sleep backoff w')"
          using "1.IH" [OF True d [symmetric] Returns pr [symmetric] Some] .
        then show ?thesis using True d pw Returns pr Some
          by (subst requestRetry_loop.simps) (simp add: time_Sleep_def printfs_def)
      qed
    qed
  qed
qed

lemma printfs_requestRetry: "printfs (snd (requestRetry env c r w)) = printfs w"
proof (cases "fake c")
  case True
  then show ?thesis by (simp add: requestRetry_def)
next
  case False
  obtain res w' where l: "requestRetry_loop env c r 0 retryDelay (None, None) w = (res, w')"
    by (cases "requestRetry_loop env c r 0 retryDelay (None, None) w")
  have "printfs w' = printfs w"
    using printfs_loop [of env c r 0 retryDelay "(None, None)" w] l by simp
  then show ?thesis using False l
    by (simp add: requestRetry_def printfs_append split: exec.splits option.splits prod.splits)
      (simp add: printfs_def)
qed

lemma printfs_request: "printfs (snd (request env c r dec ret w)) = printfs w"
proof -
  obtain res w' where l: "requestRetry env c r w = (res, w')"
    by (cases "requestRetry env c r w")
  have "printfs w' = printfs w"
    using printfs_requestRetry [of env c r w] l by simp
  then show ?thesis using l
    by (simp add: request_def split: exec.splits option.splits prod.splits)
qed

lemma printfs_request_nil: "printfs (snd (request_nil env c r w)) = printfs w"
proof -
  obtain res w' where l: "request env c r no_decoder None w = (res, w')"
    by (cases "request env c r no_decoder None w")
  have "printfs w' = printfs w"
    using printfs_request [of env c r no_decoder None w] l by simp
  then show ?thesis using l
    by (simp add: request_nil_def split: exec.splits prod.splits)
qed

lemma printfs_request_into: "printfs (snd (request_into env c r dec v w)) = printfs w"
proof -
  obtain res w' where l: "request env c r dec (Some v) w = (res, w')"
    by (cases "request env c r dec (Some v) w")
  have "printfs w' = printfs w"
    using printfs_request [of env c r dec "Some v" w] l by simp
  then show ?thesis using l
    by (simp add: request_into_def split: exec.splits prod.splits)
qed

subsection \<open>The example environments\<close>

lemma attempts_nil: "attempts [] = 0" by (simp add: attempts_def)
lemma round_trips_nil: "round_trips [] = 0" by (simp add: round_trips_def)
lemma sleeps_nil: "sleeps [] = []" by (simp add: sleeps_def)

lemma built_req0: "built_request env0 client0 req0 = Inr sent0"
  by (simp add: doRequest_build_def env0_def client0_def req0_def sent0_def Let_def
      inClusterBaseURL_def MethodPut_def MethodPatch_def)

lemma built_req0_flaky: "built_request (env_flaky resp) client0 req0 = Inr sent0"
  by (simp add: doRequest_build_def env_flaky_def env0_def client0_def req0_def sent0_def Let_def
      inClusterBaseURL_def MethodPut_def MethodPatch_def)

lemma client0_simps: "\<not> fake client0" "client client0 = Some \<lparr> TLSClientConfig = \<lparr> MinVersion = VersionTLS12, RootCAs = [] \<rparr> \<rparr>"
  by (simp_all add: client0_def)

lemma flaky_run:
  "requestRetry (env_flaky resp) client0 req0 [] =
     (Returns (requestRetry_interpret resp),
      failed_rounds sent0 retryDelay 2 @ [EvAttempt, EvDo sent0, EvClose])"
  using requestRetry_round_trip [OF client0_simps built_req0_flaky, of 2 resp "[]" "\<lambda>i. refused" resp]
  by (simp add: env_flaky_def maxRetries_def round_trips_def)

lemma refused_run:
  "requestRetry env0 client0 req0 [] =
     (Returns (None, Some refused), failed_rounds sent0 retryDelay maxRetries)"
  using requestRetry_all_transport_errors [OF client0_simps built_req0, of "[]" "\<lambda>i. refused"]
  by (simp add: env0_def)

section \<open>The claims\<close>

text \<open>
  C1 (fails on the code). A response with status 409 should give an error of a kind of
  its own, which a caller can tell from the generic failure of another non-2xx status.
  The code converts the 409 error to \<open>ConflictError\<close>, an interface type with
  the method set of \<open>error\<close>: on the run below, where the transport fails twice and
  then answers 500, the generic error satisfies the type assertion to
  \<open>ConflictError\<close> and has the dynamic type of the error returned on 409.
\<close>

theorem conflict_error_not_distinguished:
  "err_of (fst (requestRetry (env_flaky resp500) client0 req0 [])) =
     Some (ErrorString (''response has status '' @ dquote @ ''500 Internal Server Error'' @ dquote @ '' and body '' @ dquote @ ''boom'' @ dquote))
   \<and> is_ConflictError (err_of (fst (requestRetry (env_flaky resp500) client0 req0 [])))
   \<and> err_of (fst (requestRetry (env_flaky resp409) client0 req0 [])) = Some (ErrorString ''body: stale'')
   \<and> map_option dynamic_type (err_of (fst (requestRetry (env_flaky resp500) client0 req0 []))) =
     map_option dynamic_type (err_of (fst (requestRetry (env_flaky resp409) client0 req0 [])))"
  by (simp add: flaky_run err_of_def requestRetry_interpret_def resp500_def resp409_def
      fmt_Errorf_def ConflictError_def is_ConflictError_def)

text \<open>
  C2 (fails on the code as stated). In-cluster construction should fail when the token
  file or the certificate file is unreadable or when the bundle holds no certificate
  that parses. The code ignores what \<open>AppendCertsFromPEM\<close> reports: with both
  files readable and a bundle without any certificate, a client with an empty pool is
  returned.
\<close>

theorem in_cluster_accepts_unparseable_bundle:
  "fs_ok tokenFile = Inr ''t0k3n''
   \<and> fs_ok rootCAFile = Inr ''not a certificate''
   \<and> \<not> snd (AppendCertsFromPEM parse_nothing [] ''not a certificate'')
   \<and> NewClientInCluster fs_ok parse_nothing ''default'' =
       (Some \<lparr> Logger = None, baseURL = ''https://kubernetes'',
                client = Some \<lparr> TLSClientConfig = \<lparr> MinVersion = 771, RootCAs = [] \<rparr> \<rparr>,
                token = ''t0k3n'', namespace = ''default'', fake = False \<rparr>, None)"
  by (simp add: NewClientInCluster_def fs_ok_def parse_nothing_def AppendCertsFromPEM_def
      tokenFile_def rootCAFile_def inClusterBaseURL_def VersionTLS12_def Let_def)

text \<open>
  C2, amended. \<open>NewClientInCluster\<close> returns an error exactly when the token file
  or the certificate file is unreadable, whatever the parser finds in the bundle, and
  it returns a client exactly when it returns no error.
\<close>

theorem in_cluster_fails_iff_file_unreadable:
  "(snd (NewClientInCluster ReadFile parse ns) \<noteq> None) =
     (isl (ReadFile tokenFile) \<or> isl (ReadFile rootCAFile))
   \<and> (fst (NewClientInCluster ReadFile parse ns) = None) =
     (snd (NewClientInCluster ReadFile parse ns) \<noteq> None)"
  by (simp add: NewClientInCluster_def Let_def split: sum.splits)

text \<open>
  C3 (fails on the code as stated). A 2xx response with an empty body should count as
  the empty object when a result slot is given. The code hands the empty buffer to
  \<open>json.Unmarshal\<close>, which rejects it.
\<close>

theorem empty_body_fails_unmarshal:
  "StatusCode resp200_empty = 200 \<and> Body resp200_empty = ([], None)
   \<and> fst (request (env_flaky resp200_empty) client0 req0 (decode_Pod env0) (Some (zero_Pod env0)) []) =
        Returns (Some (zero_Pod env0), Some (SyntaxError ''unexpected end of JSON input''))"
proof -
  have run: "requestRetry (env_flaky resp200_empty) client0 req0 [] =
     (Returns (requestRetry_interpret resp200_empty),
      failed_rounds sent0 retryDelay 2 @ [EvAttempt, EvDo sent0, EvClose])"
    using requestRetry_round_trip [OF client0_simps built_req0_flaky, of 2 resp200_empty "[]" "\<lambda>i. refused" resp200_empty]
    by (simp add: env_flaky_def maxRetries_def round_trips_def)
  have "requestRetry_interpret resp200_empty = (Some [], None)"
    by (simp add: requestRetry_interpret_def resp200_empty_def)
  with run show ?thesis
    by (simp add: request_def json_Unmarshal_empty resp200_empty_def)
qed

text \<open>
  C3, amended. For a client that is not fake, when the round trip completes with a
  2xx response whose body is empty, a call with a result slot returns the syntax error
  of \<open>json.Unmarshal\<close> and leaves the slot as it was; a call with a nil slot
  succeeds.
\<close>

theorem empty_body_is_syntax_error:
  assumes "\<not> fake c"
    and "client c = Some hc"
    and "built_request env c r = Inr req"
    and "k < maxRetries"
    and "\<forall>i<k. client_Do env (round_trips w + i) req = Inl (err i)"
    and "client_Do env (round_trips w + k) req = Inr resp"
    and "200 \<le> StatusCode resp" and "StatusCode resp \<le> 299"
    and "Body resp = ([], None)"
  shows "fst (request env c r dec (Some t) w) =
           Returns (Some t, Some (SyntaxError ''unexpected end of JSON input''))
       \<and> fst (request env c r dec None w) = Returns (None, None)"
proof -
  have run: "requestRetry env c r w =
           (Returns (requestRetry_interpret resp),
            w @ failed_rounds req retryDelay k @ [EvAttempt, EvDo req, EvClose])"
    using assms(1-6) by (rule requestRetry_round_trip)
  have "requestRetry_interpret resp = (Some [], None)"
    using assms(7-9) by (simp add: requestRetry_interpret_def)
  with run show ?thesis
    by (simp add: request_def json_Unmarshal_empty)
qed

text \<open>
  The hypotheses of C3 hold of a transport that fails twice and then answers 200 with
  an empty body.
\<close>

theorem empty_body_is_syntax_error_witness:
  "\<not> fake client0 \<and> StatusCode resp200_empty = 200 \<and> Body resp200_empty = ([], None)
   \<and> client_Do (env_flaky resp200_empty) 2 sent0 = Inr resp200_empty
   \<and> fst (request (env_flaky resp200_empty) client0 req0 (decode_Pod env0) (Some ''old'') []) =
        Returns (Some ''old'', Some (SyntaxError ''unexpected end of JSON input''))
   \<and> fst (request (env_flaky resp200_empty) client0 req0 (decode_Pod env0) None []) =
        Returns (None, None)"
proof -
  have k: "(2::nat) < maxRetries" by (simp add: maxRetries_def)
  have f: "\<forall>i<2. client_Do (env_flaky resp200_empty) (round_trips [] + i) sent0 = Inl ((\<lambda>i. refused) i)"
    by (simp add: env_flaky_def round_trips_nil)
  have s: "client_Do (env_flaky resp200_empty) (round_trips [] + 2) sent0 = Inr resp200_empty"
    by (simp add: env_flaky_def round_trips_def)
  have b: "200 \<le> StatusCode resp200_empty" "StatusCode resp200_empty \<le> 299"
    "Body resp200_empty = ([], None)"
    by (simp_all add: resp200_empty_def)
  have d: "StatusCode resp200_empty = 200 \<and> client_Do (env_flaky resp200_empty) 2 sent0 = Inr resp200_empty"
    by (simp add: resp200_empty_def env_flaky_def)
  show ?thesis
    using empty_body_is_syntax_error [OF client0_simps built_req0_flaky k f s b, of "decode_Pod env0" "''old''"] b d
    by (simp add: client0_simps)
qed

text \<open>
  C4 (fails on the code). Sleeps should occur only between attempts, none after the
  final one. On a transport that always fails the loop makes 8 attempts and sleeps 8
  times: the last event of the call is a sleep of 256 seconds after the eighth attempt.
\<close>

theorem sleep_follows_final_attempt:
  "sleeps (snd (requestRetry env0 client0 req0 [])) =
     [EvSleep 2000000000, EvSleep 4000000000, EvSleep 8000000000, EvSleep 16000000000,
      EvSleep 32000000000, EvSleep 64000000000, EvSleep 128000000000, EvSleep 256000000000]
   \<and> attempts (snd (requestRetry env0 client0 req0 [])) = 8
   \<and> last (snd (requestRetry env0 client0 req0 [])) = EvSleep 256000000000"
  by (simp add: refused_run sleeps_failed_rounds attempts_failed_rounds)
   (simp add: maxRetries_def failed_rounds_def retryDelay_def time_Second_def upt_rec)

text \<open>
  C5. When every attempt fails in the round trip, \<open>requestRetry\<close> makes exactly 8
  attempts (8 round trips) and returns the error of the last one as it is, with a nil
  payload.
\<close>

theorem exhausted_retries_return_last_error:
  assumes "\<not> fake c"
    and "client c = Some hc"
    and "built_request env c r = Inr req"
    and "\<forall>i<maxRetries. client_Do env (round_trips w + i) req = Inl (err i)"
  shows "fst (requestRetry env c r w) = Returns (None, Some (err 7))
       \<and> attempts (snd (requestRetry env c r w)) = attempts w + 8
       \<and> round_trips (snd (requestRetry env c r w)) = round_trips w + 8"
proof -
  have "requestRetry env c r w =
        (Returns (None, Some (err (maxRetries - 1))), w @ failed_rounds req retryDelay maxRetries)"
    using assms by (rule requestRetry_all_transport_errors)
  then show ?thesis
    by (simp add: attempts_append round_trips_append attempts_failed_rounds
        round_trips_failed_rounds maxRetries_def)
qed

text \<open>The hypotheses of C5 hold of the transport that always refuses.\<close>

theorem exhausted_retries_return_last_error_witness:
  "\<not> fake client0 \<and> built_request env0 client0 req0 = Inr sent0
   \<and> client_Do env0 0 sent0 = Inl refused \<and> client_Do env0 7 sent0 = Inl refused
   \<and> fst (requestRetry env0 client0 req0 []) = Returns (None, Some refused)
   \<and> attempts (snd (requestRetry env0 client0 req0 [])) = 8
   \<and> round_trips (snd (requestRetry env0 client0 req0 [])) = 8"
proof -
  have h: "\<forall>i<maxRetries. client_Do env0 (round_trips [] + i) sent0 = Inl ((\<lambda>i. refused) i)"
    by (simp add: env0_def)
  have d: "client_Do env0 0 sent0 = Inl refused \<and> client_Do env0 7 sent0 = Inl refused"
    by (simp add: env0_def)
  show ?thesis
    using exhausted_retries_return_last_error [OF client0_simps built_req0 h] d
    by (simp add: client0_simps built_req0 attempts_nil round_trips_nil)
qed

text \<open>
  C6. Once an attempt completes a round trip, after \<open>k\<close> failed ones, whatever the
  status of the response, no further attempt and no sleep follows: the call returns the
  classification of that response and only closes its body. For status 409 this is the
  conflict error with the body, for status 500 an error whose text contains the body.
\<close>

theorem http_status_never_retried:
  assumes "\<not> fake c"
    and "client c = Some hc"
    and "built_request env c r = Inr req"
    and "k < maxRetries"
    and "\<forall>i<k. client_Do env (round_trips w + i) req = Inl (err i)"
    and "client_Do env (round_trips w + k) req = Inr resp"
  shows "requestRetry env c r w =
           (Returns (requestRetry_interpret resp),
            w @ failed_rounds req retryDelay k @ [EvAttempt, EvDo req, EvClose])
       \<and> attempts (snd (requestRetry env c r w)) = attempts w + k + 1
       \<and> round_trips (snd (requestRetry env c r w)) = round_trips w + k + 1
       \<and> (StatusCode resp = 409 \<and> snd (Body resp) = None \<longrightarrow>
            requestRetry_interpret resp = (None, Some (ErrorString (''body: '' @ fst (Body resp)))))
       \<and> (StatusCode resp = 500 \<and> snd (Body resp) = None \<longrightarrow>
            (\<exists>m. requestRetry_interpret resp = (None, Some (ErrorString m))
                 \<and> sublist (fst (Body resp)) m))"
proof -
  have run: "requestRetry env c r w =
           (Returns (requestRetry_interpret resp),
            w @ failed_rounds req retryDelay k @ [EvAttempt, EvDo req, EvClose])"
    using assms by (rule requestRetry_round_trip)
  have a: "attempts [EvAttempt, EvDo req, EvClose] = 1"
    by (simp add: attempts_def)
  have t: "round_trips [EvAttempt, EvDo req, EvClose] = 1"
    by (simp add: round_trips_def)
  have c409: "StatusCode resp = 409 \<and> snd (Body resp) = None \<longrightarrow>
            requestRetry_interpret resp = (None, Some (ErrorString (''body: '' @ fst (Body resp))))"
    by (cases "Body resp") (simp add: requestRetry_interpret_def ConflictError_def fmt_Errorf_def)
  have c500: "StatusCode resp = 500 \<and> snd (Body resp) = None \<longrightarrow>
            (\<exists>m. requestRetry_interpret resp = (None, Some (ErrorString m))
                 \<and> sublist (fst (Body resp)) m)"
  proof (intro impI)
    assume s: "StatusCode resp = 500 \<and> snd (Body resp) = None"
    let ?m = "(''response has status '' @ dquote @ Status resp @ dquote @ '' and body '' @ dquote)
              @ fst (Body resp) @ dquote"
    have "requestRetry_interpret resp = (None, Some (ErrorString ?m))"
      using s by (cases "Body resp") (simp add: requestRetry_interpret_def fmt_Errorf_def)
    moreover have "sublist (fst (Body resp)) ?m"
      unfolding sublist_def by blast
    ultimately show "\<exists>m. requestRetry_interpret resp = (None, Some (ErrorString m))
                 \<and> sublist (fst (Body resp)) m"
      by blast
  qed
  show ?thesis
    using run c409 c500
    by (simp add: attempts_append round_trips_append attempts_failed_rounds
        round_trips_failed_rounds a t)
qed

text \<open>The hypotheses of C6 hold of a transport that fails twice and then answers 500.\<close>

theorem http_status_never_retried_witness:
  "\<not> fake client0 \<and> (2::nat) < maxRetries
   \<and> client_Do (env_flaky resp500) 0 sent0 = Inl refused
   \<and> client_Do (env_flaky resp500) 1 sent0 = Inl refused
   \<and> client_Do (env_flaky resp500) 2 sent0 = Inr resp500
   \<and> StatusCode resp500 = 500 \<and> snd (Body resp500) = None
   \<and> attempts (snd (requestRetry (env_flaky resp500) client0 req0 [])) = 3
   \<and> round_trips (snd (requestRetry (env_flaky resp500) client0 req0 [])) = 3
   \<and> (\<exists>m. fst (requestRetry (env_flaky resp500) client0 req0 []) = Returns (None, Some (ErrorString m))
          \<and> sublist ''boom'' m)"
proof -
  have k: "(2::nat) < maxRetries" by (simp add: maxRetries_def)
  have f: "\<forall>i<2. client_Do (env_flaky resp500) (round_trips [] + i) sent0 = Inl ((\<lambda>i. refused) i)"
    by (simp add: env_flaky_def round_trips_nil)
  have s: "client_Do (env_flaky resp500) (round_trips [] + 2) sent0 = Inr resp500"
    by (simp add: env_flaky_def round_trips_nil)
  have b: "StatusCode resp500 = 500 \<and> snd (Body resp500) = None \<and> fst (Body resp500) = ''boom''"
    by (simp add: resp500_def)
  have d: "client_Do (env_flaky resp500) 0 sent0 = Inl refused
         \<and> client_Do (env_flaky resp500) 1 sent0 = Inl refused
         \<and> client_Do (env_flaky resp500) 2 sent0 = Inr resp500"
    by (simp add: env_flaky_def)
  show ?thesis
    using http_status_never_retried [OF client0_simps built_req0_flaky k f s] k d b
    by (simp add: client0_simps attempts_nil round_trips_nil attempts_append round_trips_append
        attempts_failed_rounds round_trips_failed_rounds)
      (simp add: attempts_def round_trips_def)
qed

text \<open>
  C7. On the client built by \<open>NewFakeClient\<close> every resource method returns
  success with the zero value of its result (\<open>GetLog\<close> with the body \<open>{}\<close>) and
  leaves the trace as it was: no attempt, no round trip, no sleep. The decoders of the
  result types, which are declared outside this file, are assumed to accept \<open>{}\<close>
  and to leave a zero value unchanged.
\<close>

theorem fake_client_short_circuits:
  assumes "decode_Pod env ''{}'' (zero_Pod env) = (zero_Pod env, None)"
    and "decode_Job env ''{}'' (zero_Job env) = (zero_Job env, None)"
    and "decode_PodList env ''{}'' [] = ([], None)"
    and "decode_JobList env ''{}'' [] = ([], None)"
  shows "GetPod env NewFakeClient name w = (Returns (zero_Pod env, None), w)
       \<and> ListPods env NewFakeClient labels w = (Returns ([], None), w)
       \<and> DeletePod env NewFakeClient name w = (Returns None, w)
       \<and> GetJob env NewFakeClient name w = (Returns (zero_Job env, None), w)
       \<and> ListJobs env NewFakeClient labels w = (Returns ([], None), w)
       \<and> CreatePod env NewFakeClient p w = (Returns (zero_Pod env, None), w)
       \<and> CreateJob env NewFakeClient j w = (Returns (zero_Job env, None), w)
       \<and> DeleteJob env NewFakeClient name w = (Returns None, w)
       \<and> PatchJob env NewFakeClient name j w = (Returns (zero_Job env, None), w)
       \<and> PatchJobStatus env NewFakeClient name j w = (Returns (zero_Job env, None), w)
       \<and> ReplaceSecret env NewFakeClient name s w = (Returns None, w)
       \<and> GetLog env NewFakeClient name w = (Returns (Some ''{}'', None), w)"
proof -
  note f = fake_NewFakeClient
  have 1: "GetPod env NewFakeClient name w = (Returns (zero_Pod env, None), w)"
    by (simp add: GetPod_def log_NewFakeClient request_into_fake [where dec = "decode_Pod env", OF f assms(1)])
  have 2: "ListPods env NewFakeClient labels w = (Returns ([], None), w)"
    by (simp add: ListPods_def log_NewFakeClient request_into_fake [where dec = "decode_PodList env", OF f assms(3)])
  have 3: "DeletePod env NewFakeClient name w = (Returns None, w)"
    by (simp add: DeletePod_def log_NewFakeClient request_nil_fake [OF f])
  have 4: "GetJob env NewFakeClient name w = (Returns (zero_Job env, None), w)"
    by (simp add: GetJob_def log_NewFakeClient request_into_fake [where dec = "decode_Job env", OF f assms(2)])
  have 5: "ListJobs env NewFakeClient labels w = (Returns ([], None), w)"
    by (simp add: ListJobs_def log_NewFakeClient request_into_fake [where dec = "decode_JobList env", OF f assms(4)])
  have 6: "CreatePod env NewFakeClient p w = (Returns (zero_Pod env, None), w)"
    by (simp add: CreatePod_def log_NewFakeClient request_into_fake [where dec = "decode_Pod env", OF f assms(1)])
  have 7: "CreateJob env NewFakeClient j w = (Returns (zero_Job env, None), w)"
    by (simp add: CreateJob_def log_NewFakeClient request_into_fake [where dec = "decode_Job env", OF f assms(2)])
  have 8: "DeleteJob env NewFakeClient name w = (Returns None, w)"
    by (simp add: DeleteJob_def log_NewFakeClient request_nil_fake [OF f])
  have 9: "PatchJob env NewFakeClient name j w = (Returns (zero_Job env, None), w)"
    by (simp add: PatchJob_def log_NewFakeClient request_into_fake [where dec = "decode_Job env", OF f assms(2)])
  have 10: "PatchJobStatus env NewFakeClient name j w = (Returns (zero_Job env, None), w)"
    by (simp add: PatchJobStatus_def log_NewFakeClient request_into_fake [where dec = "decode_Job env", OF f assms(2)])
  have 11: "ReplaceSecret env NewFakeClient name s w = (Returns None, w)"
    by (simp add: ReplaceSecret_def log_NewFakeClient request_nil_fake [OF f])
  have 12: "GetLog env NewFakeClient name w = (Returns (Some ''{}'', None), w)"
    by (simp add: GetLog_def log_NewFakeClient requestRetry_fake [OF f])
  from 1 2 3 4 5 6 7 8 9 10 11 12 show ?thesis by blast
qed

text \<open>
  The hypotheses of C7 hold of the example decoders.
\<close>

theorem fake_client_short_circuits_witness:
  "decode_Pod env0 ''{}'' (zero_Pod env0) = (zero_Pod env0, None)
   \<and> decode_Job env0 ''{}'' (zero_Job env0) = (zero_Job env0, None)
   \<and> decode_PodList env0 ''{}'' [] = ([], None)
   \<and> decode_JobList env0 ''{}'' [] = ([], None)
   \<and> GetPod env0 NewFakeClient ''pod-1'' [] = (Returns (zero_Pod env0, None), [])
   \<and> ListJobs env0 NewFakeClient [(''a'', ''1'')] [] = (Returns ([], None), [])
   \<and> CreateJob env0 NewFakeClient ''job-7'' [] = (Returns (zero_Job env0, None), [])
   \<and> ReplaceSecret env0 NewFakeClient ''pod-1'' ''hunter2'' [] = (Returns None, [])
   \<and> GetLog env0 NewFakeClient ''pod-1'' [] = (Returns (Some ''{}'', None), [])"
proof -
  have a: "decode_Pod env0 ''{}'' (zero_Pod env0) = (zero_Pod env0, None)"
    and b: "decode_Job env0 ''{}'' (zero_Job env0) = (zero_Job env0, None)"
    and c: "decode_PodList env0 ''{}'' [] = ([], None)"
    and d: "decode_JobList env0 ''{}'' [] = ([], None)"
    by (simp_all add: env0_def)
  show ?thesis
    using fake_client_short_circuits [OF a b c d, of "''pod-1''" "[]" "[(''a'', ''1'')]" "''job-7''" "''job-7''" "''hunter2''"] a b c d
    by simp
qed

text \<open>
  C8. With a logger configured, the log events of \<open>ReplaceSecret\<close> are one call of
  \<open>Printf\<close> with the name of the method and the name of the secret: they are the
  same for any other secret and any other token. \<open>CreateJob\<close> logs the rendering of
  the job it is given.
\<close>

theorem replace_secret_log_omits_secret:
  assumes "Logger c = Some l"
  shows "printfs (snd (ReplaceSecret env c name s w)) =
           printfs w @ [EvPrintf l ''%s(%s)'' [''ReplaceSecret'', name]]
       \<and> printfs (snd (ReplaceSecret env c name s w)) =
           printfs (snd (ReplaceSecret env (c\<lparr>token := t'\<rparr>) name s' w))
       \<and> printfs (snd (CreateJob env c j w)) =
           printfs w @ [EvPrintf l ''%s(%s)'' [''CreateJob'', Sprintf_v env (VJob j)]]"
  using assms
  by (simp add: ReplaceSecret_def CreateJob_def printfs_request_nil printfs_request_into
      log_def printfs_append fmt_v_def)
    (simp add: printfs_def)

text \<open>
  The hypothesis of C8 holds of the example client.
\<close>

theorem replace_secret_log_omits_secret_witness:
  "Logger client0 = Some 0
   \<and> printfs (snd (ReplaceSecret env0 client0 ''s'' ''hunter2'' [])) =
       [EvPrintf 0 ''%s(%s)'' [''ReplaceSecret'', ''s'']]
   \<and> printfs (snd (ReplaceSecret env0 client0 ''s'' ''hunter2'' [])) =
       printfs (snd (ReplaceSecret env0 (client0\<lparr>token := ''other''\<rparr>) ''s'' ''12345'' []))
   \<and> printfs (snd (CreateJob env0 client0 ''job-7'' [])) =
       [EvPrintf 0 ''%s(%s)'' [''CreateJob'', ''job-7'']]"
proof -
  have l: "Logger client0 = Some 0" by (simp add: client0_def)
  have n: "printfs [] = []" by (simp add: printfs_def)
  have v: "Sprintf_v env0 (VJob ''job-7'') = ''job-7''" by (simp add: env0_def)
  have t: "printfs (snd (ReplaceSecret env0 client0 ''s'' ''hunter2'' [])) =
       [EvPrintf 0 ''%s(%s)'' [''ReplaceSecret'', ''s'']]
   \<and> printfs (snd (ReplaceSecret env0 client0 ''s'' ''hunter2'' [])) =
       printfs (snd (ReplaceSecret env0 (client0\<lparr>token := ''other''\<rparr>) ''s'' ''12345'' []))
   \<and> printfs (snd (CreateJob env0 client0 ''job-7'' [])) =
       [EvPrintf 0 ''%s(%s)'' [''CreateJob'', ''job-7'']]"
    using replace_secret_log_omits_secret [OF l, of env0 "''s''" "''hunter2''" "[]" "''other''" "''12345''" "''job-7''",
        unfolded n v append_Nil] .
  show ?thesis using l t by (rule conjI)
qed

text \<open>
  C9. For the labels \<open>a: 1\<close> and \<open>b: 2\<close>, in whichever order the map is ranged
  over, \<open>labelsToSelector\<close> gives the two pairs joined by a comma, each once.
\<close>

theorem labelsToSelector_two_labels:
  assumes "distinct (map fst labels)"
    and "set labels = {(''a'', ''1''), (''b'', ''2'')}"
  shows "labelsToSelector labels = ''a = 1,b = 2'' \<or> labelsToSelector labels = ''b = 2,a = 1''"
proof -
  have d: "distinct labels" using assms(1) by (rule distinct_map [THEN iffD1, THEN conjunct1])
  have "card (set labels) = 2" using assms(2) by simp
  then have "length labels = 2" using d by (simp add: distinct_card)
  then obtain x y where xy: "labels = [x, y]"
    by (cases labels; cases "tl labels") auto
  then have "(x = (''a'', ''1'') \<and> y = (''b'', ''2'')) \<or> (x = (''b'', ''2'') \<and> y = (''a'', ''1''))"
    using assms(2) d by (auto simp: doubleton_eq_iff)
  then show ?thesis using xy by (auto simp: labelsToSelector_def)
qed

text \<open>
  The hypotheses of C9 hold of the order \<open>b\<close>, \<open>a\<close>.
\<close>

theorem labelsToSelector_two_labels_witness:
  "distinct (map fst [(''b'', ''2''), (''a'', ''1'')])
   \<and> set [(''b'', ''2''), (''a'', ''1'')] = {(''a'', ''1''), (''b'', ''2'')}
   \<and> labelsToSelector [(''b'', ''2''), (''a'', ''1'')] = ''b = 2,a = 1''"
proof -
  have d: "distinct (map fst [(''b'', ''2''), (''a'', ''1'')])" by simp
  have s: "set [(''b'', ''2''), (''a'', ''1'')] = {(''a'', ''1''), (''b'', ''2'')}" by auto
  show ?thesis
    using labelsToSelector_two_labels [OF d s] d s by (simp add: labelsToSelector_def)
qed

text \<open>
  C10. A request that cannot be built, because the body cannot be serialised or
  \<open>http.NewRequest\<close> rejects it, is attempted 8 times all the same, with the doubling
  sleeps, and the error of the construction is returned; no round trip is made.
\<close>

theorem construction_failure_is_retried:
  assumes "\<not> fake c"
    and "(\<exists>v. requestBody r = Some v \<and> json_Marshal env v = Inl e)
         \<or> ((\<forall>v. requestBody r = Some v \<longrightarrow> \<not> isl (json_Marshal env v))
            \<and> http_NewRequest env (httpMethod r) (baseURL c @ path r) = Some e)"
  shows "requestRetry env c r w = (Returns (None, Some e), w @ unsent_rounds retryDelay 8)
       \<and> attempts (snd (requestRetry env c r w)) = attempts w + 8
       \<and> round_trips (snd (requestRetry env c r w)) = round_trips w
       \<and> sleeps (snd (requestRetry env c r w)) =
           sleeps w @ map (\<lambda>i. EvSleep (retryDelay * 2 ^ i)) [0..<8]"
proof -
  have "built_request env c r = Inl e"
    using assms(2) by (rule doRequest_build_fails)
  with assms(1) have "requestRetry env c r w =
      (Returns (None, Some e), w @ unsent_rounds retryDelay maxRetries)"
    by (rule requestRetry_build_error)
  then show ?thesis
    by (simp add: maxRetries_def attempts_append round_trips_append sleeps_append
        attempts_unsent_rounds round_trips_unsent_rounds sleeps_unsent_rounds)
qed

text \<open>The hypotheses of C10 hold of a body that the encoder rejects.\<close>

theorem construction_failure_is_retried_witness:
  "\<not> fake client0
   \<and> requestBody req0 = Some (VSecret ''hunter2'')
   \<and> json_Marshal env_unmarshallable (VSecret ''hunter2'')
       = Inl (Foreign ''*json.UnsupportedTypeError'' ''unsupported type'')
   \<and> fst (requestRetry env_unmarshallable client0 req0 [])
       = Returns (None, Some (Foreign ''*json.UnsupportedTypeError'' ''unsupported type''))
   \<and> attempts (snd (requestRetry env_unmarshallable client0 req0 [])) = 8
   \<and> round_trips (snd (requestRetry env_unmarshallable client0 req0 [])) = 0
   \<and> length (sleeps (snd (requestRetry env_unmarshallable client0 req0 []))) = 8"
proof -
  have b: "requestBody req0 = Some (VSecret ''hunter2'')"
    by (simp add: req0_def)
  have m: "json_Marshal env_unmarshallable (VSecret ''hunter2'')
       = Inl (Foreign ''*json.UnsupportedTypeError'' ''unsupported type'')"
    by (simp add: env_unmarshallable_def)
  have h: "(\<exists>v. requestBody req0 = Some v \<and> json_Marshal env_unmarshallable v
              = Inl (Foreign ''*json.UnsupportedTypeError'' ''unsupported type''))
         \<or> ((\<forall>v. requestBody req0 = Some v \<longrightarrow> \<not> isl (json_Marshal env_unmarshallable v))
            \<and> http_NewRequest env_unmarshallable (httpMethod req0) (baseURL client0 @ path req0)
                = Some (Foreign ''*json.UnsupportedTypeError'' ''unsupported type''))"
    using b m by simp
  show ?thesis
    using construction_failure_is_retried [OF client0_simps(1) h, of "[]"] b m
    by (simp add: client0_simps attempts_nil round_trips_nil sleeps_nil
        attempts_unsent_rounds round_trips_unsent_rounds sleeps_unsent_rounds)
qed

end
